theory Spec2Isabelle
  imports Main "HOL-Library.Sublist"
begin

section \<open>Strings and paths of the Python standard library\<close>

text \<open>
  Python strings are modelled as \<^typ>\<open>string\<close>. Every operation used by the code
  (concatenation, \<open>startswith\<close>, \<open>in\<close>, splitting at \<open>/\<close>) treats its arguments as
  sequences of characters, and \<open>/\<close> is one character in both readings, so the model does
  not depend on how a code point is encoded.
  \<open>os.path\<close> is modelled as \<open>posixpath\<close>: the separator is \<open>/\<close>.
\<close>

text \<open>\<open>s.split(sep)\<close> for a separator of one character: never empty, \<open>"".split("/") == [""]\<close>.\<close>

fun str_split :: "char \<Rightarrow> string \<Rightarrow> string list" where
  "str_split sep [] = [[]]"
| "str_split sep (c # cs) =
     (if c = sep then [] # str_split sep cs
      else (case str_split sep cs of [] \<Rightarrow> [[c]] | w # ws \<Rightarrow> (c # w) # ws))"

text \<open>\<open>sep.join(xs)\<close>.\<close>

fun str_join :: "string \<Rightarrow> string list \<Rightarrow> string" where
  "str_join sep [] = []"
| "str_join sep [x] = x"
| "str_join sep (x # y # ys) = x @ sep @ str_join sep (y # ys)"

text \<open>The slice \<open>xs[:-n]\<close>; for \<open>n = 0\<close> Python reads it as \<open>xs[:0]\<close>.\<close>

definition slice_to_neg :: "nat \<Rightarrow> 'a list \<Rightarrow> 'a list" where
  "slice_to_neg n xs = (if n = 0 then [] else take (length xs - n) xs)"

text \<open>
  \<open>posixpath.basename(p)\<close> is \<open>p[p.rfind('/') + 1:]\<close>: what follows the last separator,
  the whole of \<open>p\<close> when there is none.
\<close>

definition os_path_basename :: "string \<Rightarrow> string" where
  "os_path_basename p = rev (takeWhile (\<lambda>c. c \<noteq> CHR ''/'') (rev p))"

text \<open>
  One round of the loop of \<open>posixpath.join(a, *p)\<close>: an absolute component discards what
  was joined so far; otherwise the component is appended, with a separator unless the
  path is empty or already ends with one.
\<close>

definition join_step :: "string \<Rightarrow> string \<Rightarrow> string" where
  "join_step path b =
     (if prefix ''/'' b then b
      else if path = [] \<or> suffix ''/'' path then path @ b
      else path @ ''/'' @ b)"

definition os_path_join :: "string \<Rightarrow> string list \<Rightarrow> string" where
  "os_path_join a ps = foldl join_step a ps"

section \<open>Constants of \<open>mlem.core.meta_io\<close>\<close>

definition MLEM_EXT :: string where
  "MLEM_EXT = ''.mlem.yaml''"

definition META_FILE_NAME :: string where
  "META_FILE_NAME = ''mlem.yaml''"

definition ART_DIR :: string where
  "ART_DIR = ''artifacts''"

text \<open>
  Modelled from the spec: \<open>MLEM_DIR\<close> is imported from \<open>mlem.utils.root\<close>, which is not
  among the sources. The spec calls it the fixed name of the registry directory and gives
  it as \<open>.mlem\<close>.
\<close>

definition MLEM_DIR :: string where
  "MLEM_DIR = ''.mlem''"

section \<open>Values, errors and file systems\<close>

text \<open>
  Exceptions raised by the code or passed on from its collaborators. \<open>Exception\<close> is an
  exception of exactly that class, as \<open>get_meta_path\<close> raises it; every other constructor
  stands for what an \<open>except\<close> clause of that class catches; \<open>OtherError\<close> is any
  exception that no \<open>except\<close> clause of the code catches.
\<close>

datatype error =
    Exception string
  | FileNotFoundError string
  | IndexError
  | KeyError string
  | ValueError string
  | TypeError string
  | AssertionError
  | MlemObjectNotFound string
  | OtherError string

text \<open>Values stored in option dictionaries and passed as a URL: \<open>None\<close> or a string.\<close>

datatype pyval = PyNone | PyStr string

type_synonym kwargs = "string \<rightharpoonup> pyval"

text \<open>\<open>d.update(e)\<close>: the entries of \<open>e\<close> win.\<close>

definition dict_update :: "kwargs \<Rightarrow> kwargs \<Rightarrow> kwargs" where
  "dict_update d e = d ++ e"

text \<open>The attribute \<open>fs.protocol\<close> is a string, or a list or tuple of strings.\<close>

datatype protocol = Str string | Seq "string list"

text \<open>
  The class of a file system as far as the code inspects it:
  \<open>isinstance(fs, GithubFileSystem)\<close>, and then the attributes \<open>org\<close>, \<open>repo\<close>, \<open>root\<close>.
\<close>

datatype fs_class =
    GithubFileSystem string string string
  | OtherFileSystem

text \<open>
  An \<open>AbstractFileSystem\<close> as the code uses it: its class, its protocol, and the three
  queries \<open>isfile\<close>, \<open>isdir\<close>, \<open>exists\<close>, read against an unchanged backend.
\<close>

record AbstractFileSystem =
  fs_class :: fs_class
  protocol :: protocol
  isfile :: "string \<Rightarrow> bool"
  isdir :: "string \<Rightarrow> bool"
  exists :: "string \<Rightarrow> bool"

definition is_GithubFileSystem :: "AbstractFileSystem \<Rightarrow> bool" where
  "is_GithubFileSystem fs = (case fs_class fs of GithubFileSystem _ _ _ \<Rightarrow> True | OtherFileSystem \<Rightarrow> False)"

section \<open>\<open>get_meta_path\<close>\<close>

text \<open>The message of the exception raised for a path that exists but holds no metadata.\<close>

definition not_valid_message :: "string \<Rightarrow> string" where
  "not_valid_message uri =
     uri @ '' is not a valid MLEM metafile or a folder with a MLEM model or dataset''"

definition get_meta_path :: "string \<Rightarrow> AbstractFileSystem \<Rightarrow> error + string" where
  "get_meta_path uri fs =
     (if os_path_basename uri = META_FILE_NAME \<and> isfile fs uri then Inr uri
      else if isdir fs uri \<and> isfile fs (os_path_join uri [META_FILE_NAME])
        then Inr (os_path_join uri [META_FILE_NAME])
      else if isfile fs (uri @ MLEM_EXT) then Inr (uri @ MLEM_EXT)
      else if sublist MLEM_DIR uri \<and> isfile fs uri then Inr uri
      else if exists fs uri then Inl (Exception (not_valid_message uri))
      else Inl (FileNotFoundError uri))"

section \<open>Resolving a URI to a file system: \<open>get_fs\<close>\<close>

text \<open>
  \<open>get_fs\<close> calls three functions that are not among the sources: \<open>get_github_envs\<close> and
  \<open>get_github_kwargs\<close> of \<open>mlem.utils.github\<close>, and \<open>get_fs_token_paths\<close> of the \<open>fsspec\<close>
  library. They are parameters of the model. \<open>get_fs_token_paths\<close> is given the URL, the
  protocol hint and the storage options and returns the file system and the list of
  paths (its token is never used); \<open>get_github_kwargs\<close> and \<open>get_fs_token_paths\<close> may raise.
\<close>

record meta_io_env =
  get_github_envs :: kwargs
  get_github_kwargs :: "string \<Rightarrow> error + kwargs"
  get_fs_token_paths ::
    "pyval \<Rightarrow> string option \<Rightarrow> kwargs \<Rightarrow> error + (AbstractFileSystem \<times> string list)"

text \<open>
  The first part of \<open>get_fs\<close>: the URL, the protocol and the storage options handed to
  \<open>get_fs_token_paths\<close> (before the caller's \<open>kwargs\<close> are merged in).
  \<open>github_kwargs.pop("path")\<close> raises \<open>KeyError\<close> when the key is missing.
\<close>

definition get_fs_request ::
  "meta_io_env \<Rightarrow> string \<Rightarrow> string option \<Rightarrow> error + (pyval \<times> string option \<times> kwargs)" where
  "get_fs_request env uri protocol_hint =
     (let storage_options =
            (if protocol_hint = Some ''github'' \<or> prefix ''github://'' uri
             then dict_update Map.empty (get_github_envs env) else Map.empty)
      in if protocol_hint = None \<and> prefix ''https://github.com'' uri
         then (case get_github_kwargs env uri of
                 Inl e \<Rightarrow> Inl e
               | Inr github_kwargs \<Rightarrow>
                   (case github_kwargs ''path'' of
                      None \<Rightarrow> Inl (KeyError ''path'')
                    | Some u \<Rightarrow>
                        Inr (u, Some ''github'',
                             dict_update (dict_update storage_options (get_github_envs env))
                               (github_kwargs(''path'' := None)))))
         else Inr (PyStr uri, protocol_hint, storage_options))"

text \<open>The unpacking \<open>fs, _, (path,) = ...\<close> raises \<open>ValueError\<close> unless there is one path.\<close>

definition get_fs ::
  "meta_io_env \<Rightarrow> string \<Rightarrow> string option \<Rightarrow> kwargs \<Rightarrow> error + (AbstractFileSystem \<times> string)" where
  "get_fs env uri protocol_hint kwargs =
     (case get_fs_request env uri protocol_hint of
        Inl e \<Rightarrow> Inl e
      | Inr (u, p, storage_options) \<Rightarrow>
          (case get_fs_token_paths env u p (dict_update storage_options kwargs) of
             Inl e \<Rightarrow> Inl e
           | Inr (fs, paths) \<Rightarrow>
               (case paths of
                  [path] \<Rightarrow> Inr (fs, path)
                | _ \<Rightarrow> Inl (ValueError ''unpack''))))"

section \<open>Restoring a URI: \<open>get_path_by_fs_path\<close>\<close>

text \<open>The last two statements of the function, shared by both shapes of \<open>fs.protocol\<close>.\<close>

definition with_protocol :: "string \<Rightarrow> string \<Rightarrow> string" where
  "with_protocol p path = (if prefix (p @ ''://'') path then path else p @ ''://'' @ path)"

text \<open>\<open>protocol[0]\<close> raises \<open>IndexError\<close> on an empty list or tuple.\<close>

definition get_path_by_fs_path :: "AbstractFileSystem \<Rightarrow> string \<Rightarrow> error + string" where
  "get_path_by_fs_path fs path =
     (case fs_class fs of
        GithubFileSystem org repo root \<Rightarrow>
          Inr (''https://github.com/'' @ org @ ''/'' @ repo @ ''/tree/'' @ root @ ''/'' @ path)
      | OtherFileSystem \<Rightarrow>
          (case protocol fs of
             Seq ps \<Rightarrow>
               if list_ex (\<lambda>p. prefix p path) ps then Inr path
               else (case ps of
                       [] \<Rightarrow> Inl IndexError
                     | p # _ \<Rightarrow> Inr (with_protocol p path))
           | Str p \<Rightarrow> Inr (with_protocol p path)))"

section \<open>Composing repository, path and revision\<close>

text \<open>
  The parameter \<open>rev\<close> of the source is written \<open>revision\<close>, since \<open>rev\<close> is list reversal
  in HOL; \<open>None\<close> stands for the default \<open>rev=None\<close>.
\<close>

definition path_split_postfix :: "string \<Rightarrow> string \<Rightarrow> string" where
  "path_split_postfix path postfix =
     str_join ''/''
       (slice_to_neg (length (str_split CHR ''/'' postfix)) (str_split CHR ''/'' path))"

definition get_path_by_repo_path_rev ::
  "meta_io_env \<Rightarrow> string \<Rightarrow> string \<Rightarrow> string option \<Rightarrow> error + (string \<times> kwargs)" where
  "get_path_by_repo_path_rev env repo path revision =
     (if prefix ''https://github.com'' repo then
        (case revision of
           None \<Rightarrow> Inr (os_path_join repo [path], Map.empty)
         | Some r \<Rightarrow>
             (case get_fs env repo None Map.empty of
                Inl e \<Rightarrow> Inl e
              | Inr (fs, root_path) \<Rightarrow>
                  if \<not> is_GithubFileSystem fs then Inl AssertionError
                  else Inr (os_path_join (path_split_postfix repo root_path)
                              [''tree'', r, root_path, path], Map.empty)))
      else Inr (os_path_join repo [path],
                [''rev'' \<mapsto> (case revision of None \<Rightarrow> PyNone | Some r \<Rightarrow> PyStr r)]))"

section \<open>Locations and the object store\<close>

text \<open>
  Modelled from the spec: the class \<open>Location\<close> is imported by \<open>mlem.core.metadata\<close> but its
  definition is not among the sources. The spec describes the location descriptor as a
  value of four fields: the backend, the backend-relative path, the optional repository
  root and the optional revision.
\<close>

record Location =
  loc_path :: string
  loc_repo :: "string option"
  loc_rev :: "string option"
  loc_fs :: AbstractFileSystem

text \<open>
  \<open>find_meta_location\<close> copies the object it is given and then updates the copy in place.
  To say what happens to the caller's object, objects live in a store and are named by
  references: the store is the list of all \<open>Location\<close> objects allocated so far, a
  reference is an index into it.
\<close>

type_synonym heap = "Location list"
type_synonym ref = nat

text \<open>
  Modelled from the spec: \<open>location.copy()\<close> of the absent class \<open>Location\<close> allocates a new
  object with the same fields and returns the reference to it. A reference that the
  program holds is allocated: \<open>r < length h\<close>.
\<close>

definition Location_copy :: "heap \<Rightarrow> ref \<Rightarrow> heap \<times> ref" where
  "Location_copy h r = (h @ [h ! r], length h)"

text \<open>
  Modelled from the spec: \<open>location.update_path(path)\<close> of the absent class \<open>Location\<close> is the
  spec's path replacement: the path of the receiver becomes \<open>path\<close>, the backend, the
  repository root and the revision stay.
\<close>

definition update_path :: "heap \<Rightarrow> ref \<Rightarrow> string \<Rightarrow> heap" where
  "update_path h r p = h[r := (h ! r)\<lparr>loc_path := p\<rparr>]"

section \<open>\<open>mlem.core.metadata\<close>\<close>

text \<open>
  The collaborators of \<open>load_meta\<close> and \<open>find_meta_location\<close> that are not among the
  sources are parameters: \<open>make_posix\<close>, \<open>UriResolver.resolve\<close>, \<open>MlemMeta.read\<close>,
  \<open>meta.load_value()\<close> (which updates the object and may raise), \<open>isinstance\<close> on meta
  objects with the base class \<open>MlemMeta\<close>, \<open>find_object\<close>, \<open>posixpath.relpath\<close> (which reads
  the working directory and raises on an empty path), the properties \<open>fullpath\<close> and \<open>uri\<close>
  of a location, and the texts \<open>{meta}\<close> and \<open>{force_type}\<close> of the error message.
  \<open>'m\<close> is the type of meta objects, \<open>'ty\<close> the type of classes.
\<close>

record ('m, 'ty) metadata_env =
  make_posix :: "string option \<Rightarrow> string option"
  UriResolver_resolve ::
    "heap \<Rightarrow> string option \<Rightarrow> string option \<Rightarrow> string option \<Rightarrow> AbstractFileSystem option
       \<Rightarrow> bool \<Rightarrow> error + (heap \<times> ref)"
  MlemMeta_read :: "heap \<Rightarrow> ref \<Rightarrow> bool \<Rightarrow> error + 'm"
  meta_load_value :: "'m \<Rightarrow> error + 'm"
  isinstance :: "'m \<Rightarrow> 'ty \<Rightarrow> bool"
  MlemMeta :: 'ty
  find_object :: "string \<Rightarrow> AbstractFileSystem \<Rightarrow> string option \<Rightarrow> error + (string \<times> string)"
  posixpath_relpath :: "string \<Rightarrow> string \<Rightarrow> error + string"
  Location_fullpath :: "Location \<Rightarrow> string"
  Location_uri :: "Location \<Rightarrow> string"
  str_meta :: "'m \<Rightarrow> string"
  str_type :: "'ty option \<Rightarrow> string"

text \<open>
  The \<open>try\<close> statement of \<open>find_meta_location\<close>: the path found for a location.
  Only \<open>FileNotFoundError\<close> of \<open>get_meta_path\<close> leads to \<open>find_object\<close>, and only
  \<open>ValueError\<close> of \<open>find_object\<close> becomes \<open>MlemObjectNotFound\<close>; every other exception
  passes through.
\<close>

definition find_meta_path ::
  "('m, 'ty) metadata_env \<Rightarrow> Location \<Rightarrow> error + string" where
  "find_meta_path env location =
     (case get_meta_path (Location_fullpath env location) (loc_fs location) of
        Inr p \<Rightarrow> Inr p
      | Inl (FileNotFoundError u) \<Rightarrow>
          (case find_object env (loc_path location) (loc_fs location) (loc_repo location) of
             Inr (x, p) \<Rightarrow> Inr p
           | Inl (ValueError m) \<Rightarrow>
               Inl (MlemObjectNotFound
                      (''MLEM object was not found at '' @ Location_uri env location))
           | Inl e \<Rightarrow> Inl e)
      | Inl e \<Rightarrow> Inl e)"

text \<open>
  \<open>find_meta_location\<close> takes the store and the reference to the caller's location and
  returns the new store and the reference it returns.
\<close>

definition find_meta_location ::
  "('m, 'ty) metadata_env \<Rightarrow> heap \<Rightarrow> ref \<Rightarrow> error + (heap \<times> ref)" where
  "find_meta_location env h r =
     (case Location_copy h r of
        (h1, location) \<Rightarrow>
          (case find_meta_path env (h1 ! location) of
             Inl e \<Rightarrow> Inl e
           | Inr p \<Rightarrow>
               (case (case loc_repo (h1 ! location) of
                        None \<Rightarrow> Inr p
                      | Some repo \<Rightarrow> posixpath_relpath env p repo) of
                  Inl e \<Rightarrow> Inl e
                | Inr p' \<Rightarrow> Inr (update_path h1 location p', location))))"

text \<open>The class demanded by the caller: \<open>force_type or MlemMeta\<close>.\<close>

definition demanded_type :: "('m, 'ty) metadata_env \<Rightarrow> 'ty option \<Rightarrow> 'ty" where
  "demanded_type env force_type = (case force_type of None \<Rightarrow> MlemMeta env | Some t \<Rightarrow> t)"

definition load_meta ::
  "('m, 'ty) metadata_env \<Rightarrow> heap \<Rightarrow> string \<Rightarrow> string option \<Rightarrow> string option \<Rightarrow> bool \<Rightarrow> bool
     \<Rightarrow> AbstractFileSystem option \<Rightarrow> 'ty option \<Rightarrow> error + 'm" where
  "load_meta env h path repo revision follow_links load_value fs force_type =
     (case UriResolver_resolve env h (make_posix env (Some path)) (make_posix env repo)
             revision fs True of
        Inl e \<Rightarrow> Inl e
      | Inr (h1, location) \<Rightarrow>
          (case find_meta_location env h1 location of
             Inl e \<Rightarrow> Inl e
           | Inr (h2, found) \<Rightarrow>
               (case MlemMeta_read env h2 found follow_links of
                  Inl e \<Rightarrow> Inl e
                | Inr meta0 \<Rightarrow>
                    (case (if load_value then meta_load_value env meta0 else Inr meta0) of
                       Inl e \<Rightarrow> Inl e
                     | Inr meta \<Rightarrow>
                         if \<not> isinstance env meta (demanded_type env force_type)
                         then Inl (TypeError (''Wrong type of meta loaded, '' @ str_meta env meta
                                               @ '' is not '' @ str_type env force_type))
                         else Inr meta))))"

section \<open>The discovery policy in the words of the spec\<close>

text \<open>
  The four candidate interpretations of a path, each with the condition under which it
  matches, and the ordered list of the candidates with the path each one yields.
  These follow the spec; \<open>get_meta_path\<close> above follows the code.
\<close>

definition rule1 :: "string \<Rightarrow> AbstractFileSystem \<Rightarrow> bool" where
  "rule1 uri fs = (os_path_basename uri = META_FILE_NAME \<and> isfile fs uri)"

definition rule2 :: "string \<Rightarrow> AbstractFileSystem \<Rightarrow> bool" where
  "rule2 uri fs = (isdir fs uri \<and> isfile fs (os_path_join uri [META_FILE_NAME]))"

definition rule3 :: "string \<Rightarrow> AbstractFileSystem \<Rightarrow> bool" where
  "rule3 uri fs = isfile fs (uri @ MLEM_EXT)"

definition rule4 :: "string \<Rightarrow> AbstractFileSystem \<Rightarrow> bool" where
  "rule4 uri fs = (sublist MLEM_DIR uri \<and> isfile fs uri)"

definition candidates :: "string \<Rightarrow> AbstractFileSystem \<Rightarrow> (bool \<times> string) list" where
  "candidates uri fs =
     [(rule1 uri fs, uri),
      (rule2 uri fs, os_path_join uri [META_FILE_NAME]),
      (rule3 uri fs, uri @ MLEM_EXT),
      (rule4 uri fs, uri)]"

text \<open>The error raised when no candidate matches.\<close>

definition no_match_error :: "string \<Rightarrow> AbstractFileSystem \<Rightarrow> error" where
  "no_match_error uri fs =
     (if exists fs uri then Exception (not_valid_message uri) else FileNotFoundError uri)"

text \<open>
  The registry-directory name appears as a path segment of the path: one of the pieces
  between separators is equal to it.
\<close>

definition registry_segment :: "string \<Rightarrow> bool" where
  "registry_segment uri = (MLEM_DIR \<in> set (str_split CHR ''/'' uri))"

section \<open>Example backends and environments\<close>

text \<open>
  Concrete inputs at which the theorems below are instantiated. A finite file system is
  given by its protocol, the list of its files and the list of its directories.
\<close>

definition finite_fs :: "protocol \<Rightarrow> string list \<Rightarrow> string list \<Rightarrow> AbstractFileSystem" where
  "finite_fs pr files dirs =
     \<lparr>fs_class = OtherFileSystem, protocol = pr,
      isfile = (\<lambda>p. p \<in> set files), isdir = (\<lambda>p. p \<in> set dirs),
      exists = (\<lambda>p. p \<in> set files \<or> p \<in> set dirs)\<rparr>"

definition local_fs :: "string list \<Rightarrow> string list \<Rightarrow> AbstractFileSystem" where
  "local_fs files dirs = finite_fs (Str ''file'') files dirs"

text \<open>An object store whose class lists two protocol names, holding one object.\<close>

definition s3_backend :: AbstractFileSystem where
  "s3_backend = finite_fs (Seq [''s3'', ''s3a'']) [''s3-bucket/key''] [''s3-bucket'']"

definition github_fs :: "string \<Rightarrow> string \<Rightarrow> string \<Rightarrow> AbstractFileSystem" where
  "github_fs org repo root =
     \<lparr>fs_class = GithubFileSystem org repo root, protocol = Str ''github'',
      isfile = (\<lambda>p. False), isdir = (\<lambda>p. False), exists = (\<lambda>p. False)\<rparr>"

text \<open>
  Modelled from the spec: \<open>get_github_kwargs\<close> of \<open>mlem.utils.github\<close> is not among the
  sources. The spec has it decompose a browse URL by its path segments into the
  organisation, the repository name, the revision after \<open>tree\<close> when there is one, and
  the remaining path. It is used only inside the example environment.
\<close>

definition example_github_kwargs :: "string \<Rightarrow> error + kwargs" where
  "example_github_kwargs uri =
     (case drop 3 (str_split CHR ''/'' uri) of
        org # repo # rest \<Rightarrow>
          (case rest of
             t # sha # rest' \<Rightarrow>
               if t = ''tree''
               then Inr [''org'' \<mapsto> PyStr org, ''repo'' \<mapsto> PyStr repo, ''sha'' \<mapsto> PyStr sha,
                         ''path'' \<mapsto> PyStr (str_join ''/'' rest')]
               else Inr [''org'' \<mapsto> PyStr org, ''repo'' \<mapsto> PyStr repo, ''sha'' \<mapsto> PyNone,
                         ''path'' \<mapsto> PyStr (str_join ''/'' rest)]
           | _ \<Rightarrow>
               Inr [''org'' \<mapsto> PyStr org, ''repo'' \<mapsto> PyStr repo, ''sha'' \<mapsto> PyNone,
                    ''path'' \<mapsto> PyStr (str_join ''/'' rest)])
      | _ \<Rightarrow> Inl (ValueError ''not enough values to unpack''))"

definition kwargs_str :: "kwargs \<Rightarrow> string \<Rightarrow> string \<Rightarrow> string" where
  "kwargs_str kw k d = (case kw k of Some (PyStr v) \<Rightarrow> v | _ \<Rightarrow> d)"

text \<open>
  An example of the library function: the protocol hint \<open>github\<close> selects the hosted
  backend, built from the options; a string without a scheme and without a hint is a
  path of the local file system; the path is returned as it is.
\<close>

definition example_get_fs_token_paths ::
  "pyval \<Rightarrow> string option \<Rightarrow> kwargs \<Rightarrow> error + (AbstractFileSystem \<times> string list)" where
  "example_get_fs_token_paths u p opts =
     (case u of
        PyNone \<Rightarrow> Inl (TypeError ''urlpath'')
      | PyStr s \<Rightarrow>
          if p = Some ''github''
          then Inr (github_fs (kwargs_str opts ''org'' []) (kwargs_str opts ''repo'' [])
                      (kwargs_str opts ''sha'' ''main''), [s])
          else if p = None \<and> \<not> sublist ''://'' s then Inr (local_fs [] [], [s])
          else Inl (OtherError ''protocol not in the example''))"

definition example_env :: meta_io_env where
  "example_env =
     \<lparr>get_github_envs = Map.empty,
      get_github_kwargs = example_github_kwargs,
      get_fs_token_paths = example_get_fs_token_paths\<rparr>"

text \<open>
  An example environment for \<open>mlem.core.metadata\<close>: meta objects and classes are named by
  strings, every object read is a \<open>ModelMeta\<close>, the registry holds nothing, and a path
  is made relative by dropping the repository root in front of it.
\<close>

definition example_project :: AbstractFileSystem where
  "example_project =
     local_fs [''project/model/mlem.yaml'', ''project/readme.txt'']
       [''project'', ''project/model'']"

definition example_relpath :: "string \<Rightarrow> string \<Rightarrow> error + string" where
  "example_relpath p start =
     (if p = [] then Inl (ValueError ''no path specified'')
      else if prefix (start @ ''/'') p then Inr (drop (Suc (length start)) p)
      else Inr p)"

definition example_metadata_env :: "(string, string) metadata_env" where
  "example_metadata_env =
     \<lparr>make_posix = (\<lambda>p. p),
      UriResolver_resolve =
        (\<lambda>h path repo revision fs find_repo.
           case path of
             None \<Rightarrow> Inl (TypeError ''path'')
           | Some p \<Rightarrow>
               Inr (h @ [\<lparr>loc_path = p, loc_repo = repo, loc_rev = revision,
                           loc_fs = (case fs of None \<Rightarrow> example_project | Some f \<Rightarrow> f)\<rparr>],
                    length h)),
      MlemMeta_read = (\<lambda>h r follow_links. Inr ''ModelMeta''),
      meta_load_value = (\<lambda>m. Inr m),
      isinstance = (\<lambda>m t. t = ''MlemMeta'' \<or> t = m),
      MlemMeta = ''MlemMeta'',
      find_object = (\<lambda>p fs repo. Inl (ValueError ''no such object'')),
      posixpath_relpath = example_relpath,
      Location_fullpath =
        (\<lambda>l. os_path_join (case loc_repo l of None \<Rightarrow> [] | Some r \<Rightarrow> r) [loc_path l]),
      Location_uri = loc_path,
      str_meta = (\<lambda>m. m),
      str_type = (\<lambda>t. case t of None \<Rightarrow> ''None'' | Some c \<Rightarrow> c)\<rparr>"

definition example_location :: Location where
  "example_location =
     \<lparr>loc_path = ''model'', loc_repo = Some ''project'', loc_rev = None,
      loc_fs = example_project\<rparr>"

text \<open>
  The same environment with a registry that knows one object: the alias \<open>alias\<close> stands
  for a metadata file kept under the registry directory of the project.
\<close>

definition example_registry_env :: "(string, string) metadata_env" where
  "example_registry_env =
     example_metadata_env
       \<lparr>find_object :=
          (\<lambda>p fs repo.
             if p = ''alias'' then Inr (''model'', ''project/.mlem/model/alias.mlem.yaml'')
             else Inl (ValueError ''no such object''))\<rparr>"

definition alias_location :: Location where
  "alias_location =
     \<lparr>loc_path = ''alias'', loc_repo = Some ''project'', loc_rev = None,
      loc_fs = example_project\<rparr>"


section \<open>Evaluation of the examples\<close>

lemmas example_defs =
  example_project_def local_fs_def finite_fs_def MLEM_EXT_def META_FILE_NAME_def MLEM_DIR_def
  os_path_join_def join_step_def os_path_basename_def suffix_to_prefix

lemmas rule_defs = rule1_def rule2_def rule3_def rule4_def

lemmas metadata_defs =
  find_meta_location_def find_meta_path_def Location_copy_def update_path_def
  example_metadata_env_def example_location_def example_relpath_def

lemma example_get_fs:
  "get_fs example_env ''https://github.com/org/repo/sub'' None Map.empty
     = Inr (github_fs ''org'' ''repo'' ''main'', ''sub'')"
  by (simp add: get_fs_def get_fs_request_def example_env_def example_get_fs_token_paths_def
        example_github_kwargs_def kwargs_str_def dict_update_def)

lemmas registry_defs = example_registry_env_def alias_location_def


lemma example_join_tree:
  "os_path_join (path_split_postfix ''https://github.com/org/repo/sub'' ''sub'')
     [''tree'', ''v2'', ''sub'', ''models/a'']
   = ''https://github.com/org/repo/tree/v2/sub/models/a''"
  by (simp add: os_path_join_def join_step_def path_split_postfix_def slice_to_neg_def
        suffix_to_prefix)

lemma example_load_find:
  "find_meta_location example_metadata_env
     [\<lparr>loc_path = ''project/model'', loc_repo = None, loc_rev = None, loc_fs = example_project\<rparr>] 0
   = Inr ([\<lparr>loc_path = ''project/model'', loc_repo = None, loc_rev = None, loc_fs = example_project\<rparr>,
           \<lparr>loc_path = ''project/model/mlem.yaml'', loc_repo = None, loc_rev = None,
            loc_fs = example_project\<rparr>], 1)"
  by (simp add: metadata_defs get_meta_path_def example_defs)

section \<open>Facts about splitting and joining\<close>

lemma str_split_nonempty: "str_split sep s \<noteq> []"
  by (induction s) (auto split: list.splits)

text \<open>The first piece of a split string is a prefix of the string.\<close>

lemma str_split_first_prefix: "str_split sep s = w # ws \<Longrightarrow> prefix w s"
proof (induction s arbitrary: w ws)
  case Nil
  then show ?case by simp
next
  case (Cons c cs)
  show ?case
  proof (cases "c = sep")
    case True
    with Cons.prems show ?thesis by simp
  next
    case False
    obtain v vs where v: "str_split sep cs = v # vs"
      using str_split_nonempty [of sep cs] by (cases "str_split sep cs") auto
    with False Cons.prems have "w = c # v" by simp
    with Cons.IH [OF v] show ?thesis by simp
  qed
qed

text \<open>Every piece of a split string occurs in the string.\<close>

lemma str_split_segment_sublist: "x \<in> set (str_split sep s) \<Longrightarrow> sublist x s"
proof (induction s arbitrary: x)
  case Nil
  then show ?case by simp
next
  case (Cons c cs)
  obtain v vs where v: "str_split sep cs = v # vs"
    using str_split_nonempty [of sep cs] by (cases "str_split sep cs") auto
  show ?case
  proof (cases "c = sep")
    case True
    with Cons.prems have "x = [] \<or> x \<in> set (str_split sep cs)" by simp
    then show ?thesis
    proof
      assume "x = []"
      then show ?thesis by simp
    next
      assume "x \<in> set (str_split sep cs)"
      then have "sublist x cs" by (rule Cons.IH)
      then show ?thesis by (simp add: sublist_Cons_right)
    qed
  next
    case False
    with Cons.prems v have "x = c # v \<or> x \<in> set vs" by simp
    then show ?thesis
    proof
      assume x: "x = c # v"
      from str_split_first_prefix [OF v] have "prefix (c # v) (c # cs)" by simp
      then show ?thesis unfolding x by (rule prefix_imp_sublist)
    next
      assume "x \<in> set vs"
      with v have "x \<in> set (str_split sep cs)" by simp
      then have "sublist x cs" by (rule Cons.IH)
      then show ?thesis by (simp add: sublist_Cons_right)
    qed
  qed
qed

lemma str_join_nonempty: "x \<noteq> [] \<Longrightarrow> str_join sep (x # xs) \<noteq> []"
  by (cases xs) auto

lemma suffix_slash_iff: "suffix ''/'' xs \<longleftrightarrow> xs \<noteq> [] \<and> last xs = CHR ''/''"
proof
  assume "suffix ''/'' xs"
  then show "xs \<noteq> [] \<and> last xs = CHR ''/''" by (auto simp: suffix_def)
next
  assume "xs \<noteq> [] \<and> last xs = CHR ''/''"
  then have "xs = butlast xs @ ''/''" by (metis append_butlast_last_id)
  then show "suffix ''/'' xs" by (metis suffixI)
qed

text \<open>The basename of a path that ends with a name free of separators.\<close>

lemma basename_append:
  assumes "CHR ''/'' \<notin> set b" and "a = [] \<or> suffix ''/'' a"
  shows "os_path_basename (a @ b) = b"
proof -
  have "takeWhile (\<lambda>c. c \<noteq> CHR ''/'') (rev a) = []"
    using assms(2) by (auto simp: suffix_def)
  with assms(1) show ?thesis
    by (simp add: os_path_basename_def takeWhile_append)
qed

lemma join_meta_cases:
  "os_path_join uri [META_FILE_NAME] =
     (if uri = [] \<or> suffix ''/'' uri then uri @ META_FILE_NAME else (uri @ ''/'') @ META_FILE_NAME)"
  by (simp add: os_path_join_def join_step_def META_FILE_NAME_def)

lemma basename_join_meta:
  "os_path_basename (os_path_join uri [META_FILE_NAME]) = META_FILE_NAME"
proof -
  have no: "CHR ''/'' \<notin> set META_FILE_NAME" by (simp add: META_FILE_NAME_def)
  show ?thesis
  proof (cases "uri = [] \<or> suffix ''/'' uri")
    case True
    then show ?thesis by (simp only: join_meta_cases if_True basename_append [OF no])
  next
    case False
    have "suffix ''/'' (uri @ ''/'')" by (simp add: suffix_def)
    then have "os_path_basename ((uri @ ''/'') @ META_FILE_NAME) = META_FILE_NAME"
      by (intro basename_append [OF no]) simp
    with False show ?thesis by (simp only: join_meta_cases if_False)
  qed
qed

lemma join_meta_longer: "os_path_join p [META_FILE_NAME] \<noteq> p"
proof -
  have "length p < length (os_path_join p [META_FILE_NAME])"
    by (simp add: os_path_join_def join_step_def META_FILE_NAME_def)
  then show ?thesis by force
qed

text \<open>A path that ends with the metadata suffix never has the metadata file name as basename.\<close>

lemma basename_ext: "os_path_basename (uri @ MLEM_EXT) \<noteq> META_FILE_NAME"
proof -
  have "length (os_path_basename (uri @ MLEM_EXT)) \<ge> 10"
    by (simp add: os_path_basename_def MLEM_EXT_def takeWhile_append)
  moreover have "length META_FILE_NAME = 9" by (simp add: META_FILE_NAME_def)
  ultimately show ?thesis by force
qed

text \<open>The metadata suffix begins with the registry-directory name.\<close>

lemma registry_name_in_ext: "sublist MLEM_DIR (uri @ MLEM_EXT)"
proof -
  have "uri @ MLEM_EXT = uri @ MLEM_DIR @ ''.yaml''" by (simp add: MLEM_EXT_def MLEM_DIR_def)
  then show ?thesis by (simp only: sublist_appendI)
qed

text \<open>
  Joining a non-empty prefix, \<open>tree\<close>, a revision, a root path and a path: when no
  component restarts the path and the revision neither is empty nor ends with a
  separator, the revision stands between \<open>/tree/\<close> and \<open>/\<close>.
\<close>

lemma join_tree_segment:
  assumes "P \<noteq> []" and "r \<noteq> []" and "\<not> prefix ''/'' r" and "\<not> suffix ''/'' r"
    and "\<not> prefix ''/'' root_path" and "\<not> prefix ''/'' path"
  shows "sublist (''/tree/'' @ r @ ''/'') (os_path_join P [''tree'', r, root_path, path])"
proof -
  obtain X where s1: "join_step P ''tree'' = X @ ''/tree''"
  proof (cases "suffix ''/'' P")
    case True
    then obtain Y where "P = Y @ ''/''" by (auto simp: suffix_def)
    then have "join_step P ''tree'' = Y @ ''/tree''" by (simp add: join_step_def)
    then show ?thesis by (rule that)
  next
    case False
    with assms(1) have "join_step P ''tree'' = P @ ''/tree''" by (simp add: join_step_def)
    then show ?thesis by (rule that)
  qed
  have s2: "join_step (X @ ''/tree'') r = X @ ''/tree/'' @ r"
    using assms(3) by (simp add: join_step_def suffix_slash_iff)
  have s3: "join_step (X @ ''/tree/'' @ r) root_path = X @ ''/tree/'' @ r @ ''/'' @ root_path"
    using assms(2,4,5) by (simp add: join_step_def suffix_slash_iff)
  have "join_step (X @ ''/tree/'' @ r @ ''/'' @ root_path) path
          = X @ (''/tree/'' @ r @ ''/'') @ (root_path @ path) \<or>
        join_step (X @ ''/tree/'' @ r @ ''/'' @ root_path) path
          = X @ (''/tree/'' @ r @ ''/'') @ (root_path @ ''/'' @ path)"
    using assms(6) by (simp add: join_step_def)
  then obtain Z where s4: "join_step (X @ ''/tree/'' @ r @ ''/'' @ root_path) path
      = X @ (''/tree/'' @ r @ ''/'') @ Z"
    by blast
  have "os_path_join P [''tree'', r, root_path, path] = X @ (''/tree/'' @ r @ ''/'') @ Z"
    by (simp only: os_path_join_def foldl_Cons foldl_Nil s1 s2 s3 s4)
  then show ?thesis by (simp only: sublist_appendI)
qed


lemma github_url_first_segment:
  assumes "prefix ''https://github.com'' repo"
  shows "\<exists>ws. str_split CHR ''/'' repo = ''https:'' # ws"
proof -
  from assms obtain t where "repo = ''https://github.com'' @ t" by (auto simp: prefix_def)
  then show ?thesis by simp
qed

text \<open>
  Cutting fewer pieces off a browse URL than it has leaves a non-empty prefix, since the
  first piece is the scheme.
\<close>

lemma path_split_postfix_nonempty:
  assumes "prefix ''https://github.com'' repo"
    and "length (str_split CHR ''/'' root_path) < length (str_split CHR ''/'' repo)"
  shows "path_split_postfix repo root_path \<noteq> []"
proof -
  from github_url_first_segment [OF assms(1)]
  obtain ws where ws: "str_split CHR ''/'' repo = ''https:'' # ws" by blast
  have n: "length (str_split CHR ''/'' root_path) \<noteq> 0"
    using str_split_nonempty [of "CHR ''/''" root_path] by simp
  from assms(2) ws obtain k
    where k: "length (''https:'' # ws) - length (str_split CHR ''/'' root_path) = Suc k"
    by (metis Suc_diff_Suc)
  have "slice_to_neg (length (str_split CHR ''/'' root_path)) (''https:'' # ws)
      = ''https:'' # take k ws"
    using n by (simp only: slice_to_neg_def if_False k take_Suc_Cons)
  then show ?thesis
    by (simp only: path_split_postfix_def ws) (rule str_join_nonempty, simp)
qed

text \<open>\<open>get_meta_path\<close> as a cascade over the four named conditions.\<close>

lemma get_meta_path_rules:
  "get_meta_path u fs =
     (if rule1 u fs then Inr u
      else if rule2 u fs then Inr (os_path_join u [META_FILE_NAME])
      else if rule3 u fs then Inr (u @ MLEM_EXT)
      else if rule4 u fs then Inr u
      else if exists fs u then Inl (Exception (not_valid_message u))
      else Inl (FileNotFoundError u))"
  unfolding get_meta_path_def rule_defs by (rule refl)

section \<open>Metadata path discovery\<close>

text \<open>
  Claim C1. \<open>get_meta_path\<close> tries exactly four candidate interpretations in a fixed
  order: (1) the basename is the metadata file name and the path is a file, (2) the
  path is a directory that holds the metadata file name, (3) the path with the metadata
  suffix appended is a file, (4) the registry-directory name occurs in the path and the
  path is a file. Its result is the path of the first candidate in this order whose
  condition holds, whatever later candidates match as well; when none holds it fails.
\<close>

theorem get_meta_path_first_match:
  "length (candidates uri fs) = 4 \<and>
   get_meta_path uri fs =
     (case find fst (candidates uri fs) of
        Some c \<Rightarrow> Inr (snd c)
      | None \<Rightarrow> Inl (no_match_error uri fs))"
  by (simp add: candidates_def get_meta_path_def rule_defs no_match_error_def)

text \<open>
  In the example project the path \<open>project/model\<close> is a directory holding
  \<open>mlem.yaml\<close>: only the second candidate matches.
\<close>

theorem get_meta_path_first_match_witness:
  "map fst (candidates ''project/model'' example_project) = [False, True, False, False] \<and>
   get_meta_path ''project/model'' example_project = Inr ''project/model/mlem.yaml''"
  using get_meta_path_first_match [of "''project/model''" example_project]
  by (simp add: candidates_def rule_defs example_defs)

text \<open>
  Claim C2. When none of the four interpretations matches, \<open>get_meta_path\<close> fails with
  one of two different errors: the exception saying that the path is not a valid
  metadata location when the path exists, and \<open>FileNotFoundError\<close> when it does not.
\<close>

theorem get_meta_path_no_match:
  assumes "\<not> rule1 uri fs" and "\<not> rule2 uri fs" and "\<not> rule3 uri fs" and "\<not> rule4 uri fs"
  shows "(exists fs uri \<longrightarrow> get_meta_path uri fs = Inl (Exception (not_valid_message uri))) \<and>
         (\<not> exists fs uri \<longrightarrow> get_meta_path uri fs = Inl (FileNotFoundError uri)) \<and>
         Exception (not_valid_message uri) \<noteq> FileNotFoundError uri"
  using assms by (simp add: get_meta_path_def rule_defs)

text \<open>
  In the example project \<open>project/readme.txt\<close> is a plain file without metadata and
  \<open>project/missing\<close> does not exist.
\<close>

theorem get_meta_path_no_match_witness:
  "\<not> rule1 ''project/readme.txt'' example_project \<and>
   \<not> rule2 ''project/readme.txt'' example_project \<and>
   \<not> rule3 ''project/readme.txt'' example_project \<and>
   \<not> rule4 ''project/readme.txt'' example_project \<and>
   exists example_project ''project/readme.txt'' \<and>
   get_meta_path ''project/readme.txt'' example_project =
     Inl (Exception (not_valid_message ''project/readme.txt'')) \<and>
   \<not> rule1 ''project/missing'' example_project \<and>
   \<not> rule2 ''project/missing'' example_project \<and>
   \<not> rule3 ''project/missing'' example_project \<and>
   \<not> rule4 ''project/missing'' example_project \<and>
   \<not> exists example_project ''project/missing'' \<and>
   get_meta_path ''project/missing'' example_project = Inl (FileNotFoundError ''project/missing'')"
proof -
  have a: "\<not> rule1 ''project/readme.txt'' example_project"
    by (simp add: rule1_def example_defs)
  have b: "\<not> rule2 ''project/readme.txt'' example_project"
    by (simp add: rule2_def example_defs)
  have c: "\<not> rule3 ''project/readme.txt'' example_project"
    by (simp add: rule3_def example_defs)
  have d: "\<not> rule4 ''project/readme.txt'' example_project"
    by (simp add: rule4_def example_defs sublist_code(3))
  have e: "exists example_project ''project/readme.txt''"
    by (simp add: example_defs)
  have a': "\<not> rule1 ''project/missing'' example_project"
    by (simp add: rule1_def example_defs)
  have b': "\<not> rule2 ''project/missing'' example_project"
    by (simp add: rule2_def example_defs)
  have c': "\<not> rule3 ''project/missing'' example_project"
    by (simp add: rule3_def example_defs)
  have d': "\<not> rule4 ''project/missing'' example_project"
    by (simp add: rule4_def example_defs)
  have e': "\<not> exists example_project ''project/missing''"
    by (simp add: example_defs)
  from get_meta_path_no_match [OF a b c d] get_meta_path_no_match [OF a' b' c' d']
    a b c d e a' b' c' d' e'
  show ?thesis by simp
qed

section \<open>Restoring and re-resolving a URI\<close>

text \<open>
  Claim C3 says that re-resolving the URI restored from a resolved descriptor gives back
  the same protocol and path. The theorem evaluates the code at the descriptor of the
  object \<open>s3-bucket/key\<close> on a backend whose protocol is the list \<open>s3\<close>, \<open>s3a\<close>: the
  restored URI is the bare path, because the path begins with the letters of a protocol
  name, so \<open>get_fs\<close> is asked for exactly what it is asked for the relative path
  \<open>s3-bucket/key\<close>. In every environment that resolves this path without a scheme to the
  local file system, the protocol re-resolved differs from the one of the descriptor.
\<close>

theorem bare_protocol_name_breaks_round_trip:
  assumes "get_fs env ''s3-bucket/key'' None Map.empty = Inr (fs', p')"
    and "protocol fs' = Str ''file''"
  shows "\<exists>uri. get_path_by_fs_path s3_backend ''s3-bucket/key'' = Inr uri \<and>
           get_fs env uri None Map.empty = Inr (fs', p') \<and>
           protocol fs' \<noteq> protocol s3_backend"
  using assms by (simp add: get_path_by_fs_path_def s3_backend_def finite_fs_def)

theorem bare_protocol_name_breaks_round_trip_witness:
  "get_fs example_env ''s3-bucket/key'' None Map.empty = Inr (local_fs [] [], ''s3-bucket/key'') \<and>
   protocol (local_fs [] []) = Str ''file'' \<and>
   get_path_by_fs_path s3_backend ''s3-bucket/key'' = Inr ''s3-bucket/key'' \<and>
   protocol s3_backend = Seq [''s3'', ''s3a'']"
proof -
  have a: "get_fs example_env ''s3-bucket/key'' None Map.empty
             = Inr (local_fs [] [], ''s3-bucket/key'')"
    by (simp add: get_fs_def get_fs_request_def example_env_def example_get_fs_token_paths_def
          dict_update_def sublist_code(3))
  have b: "protocol (local_fs [] []) = Str ''file''"
    by (simp add: local_fs_def finite_fs_def)
  from bare_protocol_name_breaks_round_trip [OF a b] a b show ?thesis
    by (simp add: get_path_by_fs_path_def s3_backend_def finite_fs_def)
qed

section \<open>Discovery applied twice\<close>

text \<open>
  Claim C4, as amended. Let \<open>get_meta_path\<close> succeed on a path with result \<open>p\<close>. If rule 1
  or rule 2 produced \<open>p\<close>, then rule 1 matches \<open>p\<close> and a second application returns \<open>p\<close>.
  If rule 3 or rule 4 produced \<open>p\<close>, then rule 1 does not match \<open>p\<close> while rule 4 does,
  and the second application returns \<open>p\<close> exactly when neither rule 2 nor rule 3 matches
  \<open>p\<close>.
\<close>

theorem get_meta_path_twice:
  assumes "get_meta_path uri fs = Inr p"
  shows "(rule1 uri fs \<or> rule2 uri fs \<longrightarrow> rule1 p fs \<and> get_meta_path p fs = Inr p) \<and>
         (\<not> rule1 uri fs \<and> \<not> rule2 uri fs \<longrightarrow>
            \<not> rule1 p fs \<and> rule4 p fs \<and>
            (get_meta_path p fs = Inr p \<longleftrightarrow> \<not> rule2 p fs \<and> \<not> rule3 p fs))"
proof -
  have again: "\<And>q. \<not> rule1 q fs \<Longrightarrow> rule4 q fs \<Longrightarrow>
      (get_meta_path q fs = Inr q \<longleftrightarrow> \<not> rule2 q fs \<and> \<not> rule3 q fs)"
    by (simp add: get_meta_path_rules join_meta_longer MLEM_EXT_def)
  consider (r1) "rule1 uri fs" | (r2) "\<not> rule1 uri fs" "rule2 uri fs"
    | (r3) "\<not> rule1 uri fs" "\<not> rule2 uri fs" "rule3 uri fs"
    | (r4) "\<not> rule1 uri fs" "\<not> rule2 uri fs" "\<not> rule3 uri fs" "rule4 uri fs"
    | (none) "\<not> rule1 uri fs" "\<not> rule2 uri fs" "\<not> rule3 uri fs" "\<not> rule4 uri fs"
    by blast
  then show ?thesis
  proof cases
    case r1
    with assms have "p = uri" by (simp add: get_meta_path_rules)
    with r1 show ?thesis by (simp add: get_meta_path_rules)
  next
    case r2
    with assms have p: "p = os_path_join uri [META_FILE_NAME]"
      by (simp add: get_meta_path_rules)
    from r2 have "rule1 p fs" by (simp add: p rule1_def rule2_def basename_join_meta)
    with r2 show ?thesis by (simp add: get_meta_path_rules)
  next
    case r3
    with assms have p: "p = uri @ MLEM_EXT" by (simp add: get_meta_path_rules)
    from r3 have n1: "\<not> rule1 p fs" and y4: "rule4 p fs"
      by (simp_all add: p rule1_def rule3_def rule4_def basename_ext registry_name_in_ext)
    with r3 again [OF n1 y4] show ?thesis by simp
  next
    case r4
    with assms have p: "p = uri" by (simp add: get_meta_path_rules)
    from r4 again [of uri] show ?thesis by (simp add: p)
  next
    case none
    with assms have False by (simp add: get_meta_path_rules split: if_splits)
    then show ?thesis ..
  qed
qed

text \<open>
  Where only \<open>project/model.mlem.yaml\<close> exists, the path \<open>project/model\<close> is found by
  rule 3, and rule 1 does not match the result. Where \<open>model.mlem.yaml\<close> has a sibling
  with the suffix twice, the second application returns the sibling.
\<close>

theorem get_meta_path_twice_counterexample:
  "get_meta_path ''project/model'' (local_fs [''project/model.mlem.yaml''] [''project''])
     = Inr ''project/model.mlem.yaml'' \<and>
   \<not> rule1 ''project/model.mlem.yaml'' (local_fs [''project/model.mlem.yaml''] [''project'']) \<and>
   get_meta_path ''model'' (local_fs [''model.mlem.yaml'', ''model.mlem.yaml.mlem.yaml''] [])
     = Inr ''model.mlem.yaml'' \<and>
   get_meta_path ''model.mlem.yaml'' (local_fs [''model.mlem.yaml'', ''model.mlem.yaml.mlem.yaml''] [])
     = Inr ''model.mlem.yaml.mlem.yaml''"
  by (simp add: get_meta_path_def rule1_def example_defs)

theorem get_meta_path_twice_witness:
  "get_meta_path ''project/model'' example_project = Inr ''project/model/mlem.yaml'' \<and>
   rule2 ''project/model'' example_project \<and>
   rule1 ''project/model/mlem.yaml'' example_project \<and>
   get_meta_path ''project/model/mlem.yaml'' example_project = Inr ''project/model/mlem.yaml'' \<and>
   get_meta_path ''project/model'' (local_fs [''project/model.mlem.yaml''] [''project''])
     = Inr ''project/model.mlem.yaml'' \<and>
   \<not> rule1 ''project/model'' (local_fs [''project/model.mlem.yaml''] [''project'']) \<and>
   \<not> rule2 ''project/model'' (local_fs [''project/model.mlem.yaml''] [''project'']) \<and>
   \<not> rule1 ''project/model.mlem.yaml'' (local_fs [''project/model.mlem.yaml''] [''project'']) \<and>
   rule4 ''project/model.mlem.yaml'' (local_fs [''project/model.mlem.yaml''] [''project'']) \<and>
   \<not> rule2 ''project/model.mlem.yaml'' (local_fs [''project/model.mlem.yaml''] [''project'']) \<and>
   \<not> rule3 ''project/model.mlem.yaml'' (local_fs [''project/model.mlem.yaml''] [''project'']) \<and>
   get_meta_path ''project/model.mlem.yaml'' (local_fs [''project/model.mlem.yaml''] [''project''])
     = Inr ''project/model.mlem.yaml''"
proof -
  have a: "get_meta_path ''project/model'' example_project = Inr ''project/model/mlem.yaml''"
    by (simp add: get_meta_path_def example_defs)
  have b: "rule2 ''project/model'' example_project"
    by (simp add: rule2_def example_defs)
  have c: "get_meta_path ''project/model'' (local_fs [''project/model.mlem.yaml''] [''project''])
     = Inr ''project/model.mlem.yaml''"
    by (simp add: get_meta_path_def example_defs)
  have d: "\<not> rule1 ''project/model'' (local_fs [''project/model.mlem.yaml''] [''project''])"
    by (simp add: rule1_def example_defs)
  have e: "\<not> rule2 ''project/model'' (local_fs [''project/model.mlem.yaml''] [''project''])"
    by (simp add: rule2_def example_defs)
  have f: "\<not> rule2 ''project/model.mlem.yaml'' (local_fs [''project/model.mlem.yaml''] [''project''])"
    by (simp add: rule2_def example_defs)
  have g: "\<not> rule3 ''project/model.mlem.yaml'' (local_fs [''project/model.mlem.yaml''] [''project''])"
    by (simp add: rule3_def example_defs)
  from get_meta_path_twice [OF a] get_meta_path_twice [OF c] a b c d e f g
  show ?thesis by simp
qed

section \<open>The fourth rule\<close>

text \<open>
  Claim C5, as amended. Rule 4 is reached when rules 1 to 3 do not match. It then
  matches exactly when the registry-directory name occurs somewhere in the path, as a
  substring, and the path is a file, and \<open>get_meta_path\<close> returns the path unchanged; it
  returns no other path. A path that has the registry-directory name as one of its
  segments is a special case of such an occurrence.
\<close>

theorem rule4_substring_test:
  assumes "\<not> rule1 uri fs" and "\<not> rule2 uri fs" and "\<not> rule3 uri fs"
  shows "(get_meta_path uri fs = Inr uri \<longleftrightarrow> sublist MLEM_DIR uri \<and> isfile fs uri) \<and>
         (\<forall>p. get_meta_path uri fs = Inr p \<longrightarrow> p = uri) \<and>
         (registry_segment uri \<longrightarrow> sublist MLEM_DIR uri)"
proof -
  have "registry_segment uri \<longrightarrow> sublist MLEM_DIR uri"
    by (simp add: registry_segment_def str_split_segment_sublist)
  moreover from assms
  have "get_meta_path uri fs = Inr uri \<longleftrightarrow> sublist MLEM_DIR uri \<and> isfile fs uri"
    by (simp add: get_meta_path_rules) (simp add: rule4_def)
  moreover from assms have "\<forall>p. get_meta_path uri fs = Inr p \<longrightarrow> p = uri"
    by (simp add: get_meta_path_rules)
  ultimately show ?thesis by blast
qed

text \<open>
  The file \<open>data/my.mlem.txt\<close> has no segment equal to the registry-directory name, and
  rule 4 returns it. The file \<open>.mlem/link\<close> has such a segment, and where
  \<open>.mlem/link.mlem.yaml\<close> exists as well, rule 3 wins and the path returned is another.
\<close>

theorem rule4_segment_counterexample:
  "get_meta_path ''data/my.mlem.txt'' (local_fs [''data/my.mlem.txt''] [''data''])
     = Inr ''data/my.mlem.txt'' \<and>
   \<not> rule1 ''data/my.mlem.txt'' (local_fs [''data/my.mlem.txt''] [''data'']) \<and>
   \<not> rule2 ''data/my.mlem.txt'' (local_fs [''data/my.mlem.txt''] [''data'']) \<and>
   \<not> rule3 ''data/my.mlem.txt'' (local_fs [''data/my.mlem.txt''] [''data'']) \<and>
   \<not> registry_segment ''data/my.mlem.txt'' \<and>
   registry_segment ''.mlem/link'' \<and>
   isfile (local_fs [''.mlem/link'', ''.mlem/link.mlem.yaml''] [''.mlem'']) ''.mlem/link'' \<and>
   get_meta_path ''.mlem/link'' (local_fs [''.mlem/link'', ''.mlem/link.mlem.yaml''] [''.mlem''])
     = Inr ''.mlem/link.mlem.yaml''"
  by (simp add: get_meta_path_def rule_defs example_defs registry_segment_def sublist_code(3))

theorem rule4_substring_test_witness:
  "\<not> rule1 ''.mlem/link'' (local_fs [''.mlem/link''] [''.mlem'']) \<and>
   \<not> rule2 ''.mlem/link'' (local_fs [''.mlem/link''] [''.mlem'']) \<and>
   \<not> rule3 ''.mlem/link'' (local_fs [''.mlem/link''] [''.mlem'']) \<and>
   registry_segment ''.mlem/link'' \<and>
   sublist MLEM_DIR ''.mlem/link'' \<and>
   isfile (local_fs [''.mlem/link''] [''.mlem'']) ''.mlem/link'' \<and>
   get_meta_path ''.mlem/link'' (local_fs [''.mlem/link''] [''.mlem'']) = Inr ''.mlem/link''"
proof -
  have a: "\<not> rule1 ''.mlem/link'' (local_fs [''.mlem/link''] [''.mlem''])"
    by (simp add: rule1_def example_defs)
  have b: "\<not> rule2 ''.mlem/link'' (local_fs [''.mlem/link''] [''.mlem''])"
    by (simp add: rule2_def example_defs)
  have c: "\<not> rule3 ''.mlem/link'' (local_fs [''.mlem/link''] [''.mlem''])"
    by (simp add: rule3_def example_defs)
  have d: "registry_segment ''.mlem/link''"
    by (simp add: registry_segment_def MLEM_DIR_def)
  have e: "isfile (local_fs [''.mlem/link''] [''.mlem'']) ''.mlem/link''"
    by (simp add: example_defs)
  from rule4_substring_test [OF a b c] a b c d e show ?thesis by simp
qed

section \<open>Composing repository, path and revision: properties\<close>

text \<open>
  Claim C6, as amended. Let the revision be given. For a repository that starts with
  \<open>https://github.com\<close>, every successful result has an empty options mapping, and its
  URI is the join of the repository cut by the root path that \<open>get_fs\<close> returned,
  \<open>tree\<close>, the revision, that root path and the path; the URI contains
  \<open>/tree/<rev>/\<close> when the revision is not empty and neither starts nor ends with a
  separator, the root path and the path do not start with one, and the root path has
  fewer segments than the repository. For any other repository the result is the join
  of repository and path, which does not depend on the revision, together with the
  mapping that holds the revision under the key \<open>rev\<close>.
\<close>

theorem get_path_by_repo_path_rev_encoding:
  "(prefix ''https://github.com'' repo \<longrightarrow>
      (\<forall>uri kw. get_path_by_repo_path_rev env repo path (Some r) = Inr (uri, kw) \<longrightarrow>
         kw = Map.empty \<and>
         (\<exists>fs root_path.
            get_fs env repo None Map.empty = Inr (fs, root_path) \<and>
            uri = os_path_join (path_split_postfix repo root_path) [''tree'', r, root_path, path] \<and>
            (r \<noteq> [] \<and> \<not> prefix ''/'' r \<and> \<not> suffix ''/'' r \<and> \<not> prefix ''/'' root_path \<and>
             \<not> prefix ''/'' path \<and>
             length (str_split CHR ''/'' root_path) < length (str_split CHR ''/'' repo)
             \<longrightarrow> sublist (''/tree/'' @ r @ ''/'') uri)))) \<and>
   (\<not> prefix ''https://github.com'' repo \<longrightarrow>
      get_path_by_repo_path_rev env repo path (Some r)
        = Inr (os_path_join repo [path], [''rev'' \<mapsto> PyStr r]))"
proof (intro conjI impI allI)
  fix uri kw
  assume gh: "prefix ''https://github.com'' repo"
    and res: "get_path_by_repo_path_rev env repo path (Some r) = Inr (uri, kw)"
  from gh res obtain fs root_path where
    g: "get_fs env repo None Map.empty = Inr (fs, root_path)"
    and u: "uri = os_path_join (path_split_postfix repo root_path) [''tree'', r, root_path, path]"
    and k: "kw = Map.empty"
    by (auto simp: get_path_by_repo_path_rev_def split: sum.splits if_splits)
  show "kw = Map.empty" by (rule k)
  have "r \<noteq> [] \<and> \<not> prefix ''/'' r \<and> \<not> suffix ''/'' r \<and> \<not> prefix ''/'' root_path \<and>
        \<not> prefix ''/'' path \<and>
        length (str_split CHR ''/'' root_path) < length (str_split CHR ''/'' repo)
        \<longrightarrow> sublist (''/tree/'' @ r @ ''/'') uri"
    unfolding u using join_tree_segment path_split_postfix_nonempty [OF gh] by blast
  with g u show "\<exists>fs root_path.
            get_fs env repo None Map.empty = Inr (fs, root_path) \<and>
            uri = os_path_join (path_split_postfix repo root_path) [''tree'', r, root_path, path] \<and>
            (r \<noteq> [] \<and> \<not> prefix ''/'' r \<and> \<not> suffix ''/'' r \<and> \<not> prefix ''/'' root_path \<and>
             \<not> prefix ''/'' path \<and>
             length (str_split CHR ''/'' root_path) < length (str_split CHR ''/'' repo)
             \<longrightarrow> sublist (''/tree/'' @ r @ ''/'') uri)"
    by blast
next
  assume "\<not> prefix ''https://github.com'' repo"
  then show "get_path_by_repo_path_rev env repo path (Some r)
        = Inr (os_path_join repo [path], [''rev'' \<mapsto> PyStr r])"
    by (simp add: get_path_by_repo_path_rev_def)
qed

text \<open>
  With an absolute path, or a revision that starts with a separator, the join restarts
  there; with a revision that is empty or ends with a separator, no second separator is
  added after it: in each case the URI lacks \<open>/tree/<rev>/\<close>.
\<close>

theorem get_path_by_repo_path_rev_counterexample:
  "get_path_by_repo_path_rev example_env ''https://github.com/org/repo/sub'' ''/models/a''
       (Some ''main'') = Inr (''/models/a'', Map.empty) \<and>
   \<not> sublist (''/tree/'' @ ''main'' @ ''/'') ''/models/a'' \<and>
   get_path_by_repo_path_rev example_env ''https://github.com/org/repo/sub'' ''models/a''
       (Some []) = Inr (''https://github.com/org/repo/tree/sub/models/a'', Map.empty) \<and>
   \<not> sublist (''/tree/'' @ [] @ ''/'') ''https://github.com/org/repo/tree/sub/models/a'' \<and>
   get_path_by_repo_path_rev example_env ''https://github.com/org/repo/sub'' ''models/a''
       (Some ''main/'') = Inr (''https://github.com/org/repo/tree/main/sub/models/a'', Map.empty) \<and>
   \<not> sublist (''/tree/'' @ ''main/'' @ ''/'')
       ''https://github.com/org/repo/tree/main/sub/models/a'' \<and>
   get_path_by_repo_path_rev example_env ''https://github.com/org/repo/sub'' ''models/a''
       (Some ''/main'') = Inr (''/main/sub/models/a'', Map.empty) \<and>
   \<not> sublist (''/tree/'' @ ''/main'' @ ''/'') ''/main/sub/models/a''"
proof -
  have "get_path_by_repo_path_rev example_env ''https://github.com/org/repo/sub'' ''models/a''
       (Some ''main/'') = Inr (''https://github.com/org/repo/tree/main/sub/models/a'', Map.empty)"
    by (simp add: get_path_by_repo_path_rev_def example_get_fs)
       (simp add: is_GithubFileSystem_def github_fs_def os_path_join_def join_step_def
          path_split_postfix_def slice_to_neg_def suffix_to_prefix)
  moreover have "\<not> sublist (''/tree/'' @ ''main/'' @ ''/'')
       ''https://github.com/org/repo/tree/main/sub/models/a''"
    by (simp add: sublist_code(3))
  moreover have "get_path_by_repo_path_rev example_env ''https://github.com/org/repo/sub''
       ''models/a'' (Some ''/main'') = Inr (''/main/sub/models/a'', Map.empty)"
    by (simp add: get_path_by_repo_path_rev_def example_get_fs)
       (simp add: is_GithubFileSystem_def github_fs_def os_path_join_def join_step_def
          path_split_postfix_def slice_to_neg_def suffix_to_prefix)
  moreover have "\<not> sublist (''/tree/'' @ ''/main'' @ ''/'') ''/main/sub/models/a''"
    by (simp add: sublist_code(3))
  moreover
  have "get_path_by_repo_path_rev example_env ''https://github.com/org/repo/sub'' ''/models/a''
       (Some ''main'') = Inr (''/models/a'', Map.empty)"
    by (simp add: get_path_by_repo_path_rev_def example_get_fs)
       (simp add: is_GithubFileSystem_def github_fs_def os_path_join_def join_step_def)
  moreover have "get_path_by_repo_path_rev example_env ''https://github.com/org/repo/sub''
       ''models/a'' (Some []) = Inr (''https://github.com/org/repo/tree/sub/models/a'', Map.empty)"
    by (simp add: get_path_by_repo_path_rev_def example_get_fs)
       (simp add: is_GithubFileSystem_def github_fs_def os_path_join_def join_step_def
          path_split_postfix_def slice_to_neg_def suffix_to_prefix)
  moreover have "\<not> sublist (''/tree/'' @ ''main'' @ ''/'') ''/models/a''"
    by (simp add: sublist_code(3))
  moreover have
    "\<not> sublist (''/tree/'' @ [] @ ''/'') ''https://github.com/org/repo/tree/sub/models/a''"
    by (simp add: sublist_code(3))
  ultimately show ?thesis by blast
qed

theorem get_path_by_repo_path_rev_encoding_witness:
  "prefix ''https://github.com'' ''https://github.com/org/repo/sub'' \<and>
   get_path_by_repo_path_rev example_env ''https://github.com/org/repo/sub'' ''models/a''
       (Some ''v2'') = Inr (''https://github.com/org/repo/tree/v2/sub/models/a'', Map.empty) \<and>
   sublist (''/tree/'' @ ''v2'' @ ''/'') ''https://github.com/org/repo/tree/v2/sub/models/a'' \<and>
   \<not> prefix ''https://github.com'' ''/home/user/repo'' \<and>
   get_path_by_repo_path_rev example_env ''/home/user/repo'' ''models/a'' (Some ''main'')
     = Inr (''/home/user/repo/models/a'', [''rev'' \<mapsto> PyStr ''main''])"
proof -
  have a: "prefix ''https://github.com'' ''https://github.com/org/repo/sub''" by simp
  have b: "get_path_by_repo_path_rev example_env ''https://github.com/org/repo/sub'' ''models/a''
       (Some ''v2'') = Inr (''https://github.com/org/repo/tree/v2/sub/models/a'', Map.empty)"
    by (simp add: get_path_by_repo_path_rev_def example_get_fs)
       (simp add: is_GithubFileSystem_def github_fs_def example_join_tree)
  have c: "\<not> prefix ''https://github.com'' ''/home/user/repo''" by simp
  have d: "os_path_join ''/home/user/repo'' [''models/a''] = ''/home/user/repo/models/a''"
    by (simp add: os_path_join_def join_step_def suffix_to_prefix)
  have e: "''v2'' \<noteq> [] \<and> \<not> prefix ''/'' ''v2'' \<and> \<not> suffix ''/'' ''v2'' \<and> \<not> prefix ''/'' ''sub'' \<and>
        \<not> prefix ''/'' ''models/a'' \<and>
        length (str_split CHR ''/'' ''sub'')
          < length (str_split CHR ''/'' ''https://github.com/org/repo/sub'')"
    by (simp add: suffix_to_prefix)
  from get_path_by_repo_path_rev_encoding
         [of "''https://github.com/org/repo/sub''" example_env "''models/a''" "''v2''"] a b e
  have "sublist (''/tree/'' @ ''v2'' @ ''/'') ''https://github.com/org/repo/tree/v2/sub/models/a''"
    by (simp only: example_get_fs) blast
  moreover
  from get_path_by_repo_path_rev_encoding
         [of "''/home/user/repo''" example_env "''models/a''" "''main''"] c d
  have "get_path_by_repo_path_rev example_env ''/home/user/repo'' ''models/a'' (Some ''main'')
     = Inr (''/home/user/repo/models/a'', [''rev'' \<mapsto> PyStr ''main''])"
    by simp
  ultimately show ?thesis using a b c by blast
qed




section \<open>Loading metadata\<close>

text \<open>
  Claim C8. Whenever \<open>load_meta\<close> returns a meta object, the object is an instance of
  the class the caller demanded: \<open>force_type\<close> when it is given, the base class
  \<open>MlemMeta\<close> otherwise. When the object read (after its value was loaded, if that was
  asked for) is not an instance of that class, \<open>load_meta\<close> ends with the \<open>TypeError\<close>
  and nothing else is tried.
\<close>

theorem load_meta_type_check:
  "(\<forall>m. load_meta env h path repo revision follow_links load_value fs force_type = Inr m
        \<longrightarrow> isinstance env m (demanded_type env force_type)) \<and>
   (\<forall>h1 l h2 found meta0 meta.
      UriResolver_resolve env h (make_posix env (Some path)) (make_posix env repo)
        revision fs True = Inr (h1, l) \<longrightarrow>
      find_meta_location env h1 l = Inr (h2, found) \<longrightarrow>
      MlemMeta_read env h2 found follow_links = Inr meta0 \<longrightarrow>
      (if load_value then meta_load_value env meta0 else Inr meta0) = Inr meta \<longrightarrow>
      \<not> isinstance env meta (demanded_type env force_type) \<longrightarrow>
      load_meta env h path repo revision follow_links load_value fs force_type
        = Inl (TypeError (''Wrong type of meta loaded, '' @ str_meta env meta @ '' is not ''
                           @ str_type env force_type))) \<and>
   demanded_type env None = MlemMeta env \<and>
   (\<forall>t. demanded_type env (Some t) = t)"
proof (intro conjI allI impI)
  fix m
  assume "load_meta env h path repo revision follow_links load_value fs force_type = Inr m"
  then show "isinstance env m (demanded_type env force_type)"
    by (auto simp: load_meta_def split: sum.splits prod.splits if_splits)
next
  fix h1 l h2 found meta0 meta
  assume "UriResolver_resolve env h (make_posix env (Some path)) (make_posix env repo)
        revision fs True = Inr (h1, l)"
    and "find_meta_location env h1 l = Inr (h2, found)"
    and "MlemMeta_read env h2 found follow_links = Inr meta0"
    and "(if load_value then meta_load_value env meta0 else Inr meta0) = Inr meta"
    and "\<not> isinstance env meta (demanded_type env force_type)"
  then show "load_meta env h path repo revision follow_links load_value fs force_type
        = Inl (TypeError (''Wrong type of meta loaded, '' @ str_meta env meta @ '' is not ''
                           @ str_type env force_type))"
    by (simp add: load_meta_def)
next
  show "demanded_type env None = MlemMeta env" by (simp add: demanded_type_def)
next
  fix t
  show "demanded_type env (Some t) = t" by (simp add: demanded_type_def)
qed

text \<open>
  In the example environment \<open>project/model\<close> loads as a \<open>ModelMeta\<close>: this is accepted
  when no class is demanded and refused when a \<open>DatasetMeta\<close> is.
\<close>

theorem load_meta_type_check_witness:
  "load_meta example_metadata_env [] ''project/model'' None None True False None None
     = Inr ''ModelMeta'' \<and>
   isinstance example_metadata_env ''ModelMeta'' (demanded_type example_metadata_env None) \<and>
   \<not> isinstance example_metadata_env ''ModelMeta''
       (demanded_type example_metadata_env (Some ''DatasetMeta'')) \<and>
   load_meta example_metadata_env [] ''project/model'' None None True False None
       (Some ''DatasetMeta'')
     = Inl (TypeError ''Wrong type of meta loaded, ModelMeta is not DatasetMeta'')"
proof -
  have a: "UriResolver_resolve example_metadata_env []
             (make_posix example_metadata_env (Some ''project/model''))
             (make_posix example_metadata_env None) None None True
           = Inr ([\<lparr>loc_path = ''project/model'', loc_repo = None, loc_rev = None,
                    loc_fs = example_project\<rparr>], 0)"
    by (simp add: example_metadata_env_def)
  have b: "MlemMeta_read example_metadata_env
             [\<lparr>loc_path = ''project/model'', loc_repo = None, loc_rev = None, loc_fs = example_project\<rparr>,
              \<lparr>loc_path = ''project/model/mlem.yaml'', loc_repo = None, loc_rev = None,
               loc_fs = example_project\<rparr>] 1 True = Inr ''ModelMeta''"
    by (simp add: example_metadata_env_def)
  have c: "(if False then meta_load_value example_metadata_env ''ModelMeta'' else Inr ''ModelMeta'')
             = Inr ''ModelMeta''"
    by simp
  have d: "\<not> isinstance example_metadata_env ''ModelMeta''
             (demanded_type example_metadata_env (Some ''DatasetMeta''))"
    by (simp add: example_metadata_env_def demanded_type_def)
  have e: "load_meta example_metadata_env [] ''project/model'' None None True False None None
     = Inr ''ModelMeta''"
    by (simp add: load_meta_def a example_load_find)
       (simp add: example_metadata_env_def demanded_type_def)
  have f: "str_meta example_metadata_env ''ModelMeta'' = ''ModelMeta''"
    and g: "str_type example_metadata_env (Some ''DatasetMeta'') = ''DatasetMeta''"
    by (simp_all add: example_metadata_env_def)
  from load_meta_type_check [of example_metadata_env "[]" "''project/model''" None None True
         False None None]
    e
  have "isinstance example_metadata_env ''ModelMeta'' (demanded_type example_metadata_env None)"
    by blast
  moreover
  from load_meta_type_check [of example_metadata_env "[]" "''project/model''" None None True
         False None "Some ''DatasetMeta''"]
    a example_load_find b c d
  have "load_meta example_metadata_env [] ''project/model'' None None True False None
       (Some ''DatasetMeta'')
     = Inl (TypeError (''Wrong type of meta loaded, '' @ str_meta example_metadata_env ''ModelMeta''
            @ '' is not '' @ str_type example_metadata_env (Some ''DatasetMeta'')))"
    by blast
  ultimately show ?thesis using d e by (simp add: f g)
qed

text \<open>
  Claim C9. Let \<open>find_meta_location\<close> be called on an allocated location. When it
  succeeds, the reference it returns is to a new object; every object allocated
  before, the caller's location among them, is unchanged; the new object has the
  backend, the repository and the revision of the input, and its path is the path
  discovered, made relative to the repository when the repository is set. The path
  discovered is the result of \<open>get_meta_path\<close> when that succeeds, and the path that
  \<open>find_object\<close> returns when \<open>get_meta_path\<close> raised \<open>FileNotFoundError\<close>: in both
  cases the result is the store extended by the input with that path. The registry is
  consulted only after \<open>FileNotFoundError\<close>: any other exception of \<open>get_meta_path\<close> is
  the result. When the registry lookup raises \<open>ValueError\<close> the result is
  \<open>MlemObjectNotFound\<close>; any other exception of the lookup is passed on.
\<close>

theorem find_meta_location_new_descriptor:
  assumes "r < length h"
  shows
   "(\<forall>h' r'. find_meta_location env h r = Inr (h', r') \<longrightarrow>
       r' = length h \<and> length h' = Suc (length h) \<and> take (length h) h' = h \<and>
       h' ! r = h ! r \<and>
       loc_fs (h' ! r') = loc_fs (h ! r) \<and> loc_repo (h' ! r') = loc_repo (h ! r) \<and>
       loc_rev (h' ! r') = loc_rev (h ! r) \<and>
       (\<exists>p. (get_meta_path (Location_fullpath env (h ! r)) (loc_fs (h ! r)) = Inr p \<or>
              (\<exists>u x. get_meta_path (Location_fullpath env (h ! r)) (loc_fs (h ! r))
                        = Inl (FileNotFoundError u) \<and>
                      find_object env (loc_path (h ! r)) (loc_fs (h ! r)) (loc_repo (h ! r))
                        = Inr (x, p))) \<and>
            (case loc_repo (h ! r) of
               None \<Rightarrow> loc_path (h' ! r') = p
             | Some repo \<Rightarrow> posixpath_relpath env p repo = Inr (loc_path (h' ! r'))))) \<and>
    (\<forall>p p'. get_meta_path (Location_fullpath env (h ! r)) (loc_fs (h ! r)) = Inr p
        \<longrightarrow> (case loc_repo (h ! r) of
               None \<Rightarrow> Inr p
             | Some repo \<Rightarrow> posixpath_relpath env p repo) = Inr p'
        \<longrightarrow> find_meta_location env h r
              = Inr (h @ [(h ! r)\<lparr>loc_path := p'\<rparr>], length h)) \<and>
    (\<forall>u x p p'. get_meta_path (Location_fullpath env (h ! r)) (loc_fs (h ! r))
              = Inl (FileNotFoundError u)
        \<longrightarrow> find_object env (loc_path (h ! r)) (loc_fs (h ! r)) (loc_repo (h ! r))
              = Inr (x, p)
        \<longrightarrow> (case loc_repo (h ! r) of
               None \<Rightarrow> Inr p
             | Some repo \<Rightarrow> posixpath_relpath env p repo) = Inr p'
        \<longrightarrow> find_meta_location env h r
              = Inr (h @ [(h ! r)\<lparr>loc_path := p'\<rparr>], length h)) \<and>
    (\<forall>e. get_meta_path (Location_fullpath env (h ! r)) (loc_fs (h ! r)) = Inl e
        \<longrightarrow> (\<forall>u. e \<noteq> FileNotFoundError u)
        \<longrightarrow> find_meta_location env h r = Inl e) \<and>
    (\<forall>u m. get_meta_path (Location_fullpath env (h ! r)) (loc_fs (h ! r))
              = Inl (FileNotFoundError u)
        \<longrightarrow> find_object env (loc_path (h ! r)) (loc_fs (h ! r)) (loc_repo (h ! r))
              = Inl (ValueError m)
        \<longrightarrow> find_meta_location env h r
              = Inl (MlemObjectNotFound
                       (''MLEM object was not found at '' @ Location_uri env (h ! r)))) \<and>
    (\<forall>u e. get_meta_path (Location_fullpath env (h ! r)) (loc_fs (h ! r))
              = Inl (FileNotFoundError u)
        \<longrightarrow> find_object env (loc_path (h ! r)) (loc_fs (h ! r)) (loc_repo (h ! r)) = Inl e
        \<longrightarrow> (\<forall>m. e \<noteq> ValueError m)
        \<longrightarrow> find_meta_location env h r = Inl e)"
proof (intro conjI allI impI)
  fix h' r'
  assume res: "find_meta_location env h r = Inr (h', r')"
  from res obtain p p' where
    p: "find_meta_path env (h ! r) = Inr p"
    and p': "(case loc_repo (h ! r) of None \<Rightarrow> Inr p | Some repo \<Rightarrow> posixpath_relpath env p repo)
               = Inr p'"
    and h': "h' = (h @ [h ! r])[length h := (h ! r)\<lparr>loc_path := p'\<rparr>]"
    and r': "r' = length h"
    by (auto simp: find_meta_location_def Location_copy_def update_path_def
          split: sum.splits)
  show "r' = length h" by (rule r')
  show "length h' = Suc (length h)" by (simp add: h')
  show "take (length h) h' = h" by (simp add: h')
  show "h' ! r = h ! r" using assms by (simp add: h' nth_append)
  have new: "h' ! r' = (h ! r)\<lparr>loc_path := p'\<rparr>" by (simp add: h' r')
  show "loc_fs (h' ! r') = loc_fs (h ! r)" by (simp add: new)
  show "loc_repo (h' ! r') = loc_repo (h ! r)" by (simp add: new)
  show "loc_rev (h' ! r') = loc_rev (h ! r)" by (simp add: new)
  from p have src: "get_meta_path (Location_fullpath env (h ! r)) (loc_fs (h ! r)) = Inr p \<or>
              (\<exists>u x. get_meta_path (Location_fullpath env (h ! r)) (loc_fs (h ! r))
                        = Inl (FileNotFoundError u) \<and>
                      find_object env (loc_path (h ! r)) (loc_fs (h ! r)) (loc_repo (h ! r))
                        = Inr (x, p))"
    by (auto simp: find_meta_path_def split: sum.splits error.splits)
  from p' have "(case loc_repo (h ! r) of
               None \<Rightarrow> loc_path (h' ! r') = p
             | Some repo \<Rightarrow> posixpath_relpath env p repo = Inr (loc_path (h' ! r')))"
    by (auto simp: new split: option.splits)
  with src show "\<exists>p. (get_meta_path (Location_fullpath env (h ! r)) (loc_fs (h ! r)) = Inr p \<or>
              (\<exists>u x. get_meta_path (Location_fullpath env (h ! r)) (loc_fs (h ! r))
                        = Inl (FileNotFoundError u) \<and>
                      find_object env (loc_path (h ! r)) (loc_fs (h ! r)) (loc_repo (h ! r))
                        = Inr (x, p))) \<and>
            (case loc_repo (h ! r) of
               None \<Rightarrow> loc_path (h' ! r') = p
             | Some repo \<Rightarrow> posixpath_relpath env p repo = Inr (loc_path (h' ! r')))"
    by blast
next
  fix p p'
  assume "get_meta_path (Location_fullpath env (h ! r)) (loc_fs (h ! r)) = Inr p"
    and "(case loc_repo (h ! r) of None \<Rightarrow> Inr p | Some repo \<Rightarrow> posixpath_relpath env p repo)
           = Inr p'"
  then show "find_meta_location env h r = Inr (h @ [(h ! r)\<lparr>loc_path := p'\<rparr>], length h)"
    by (simp add: find_meta_location_def find_meta_path_def Location_copy_def update_path_def)
next
  fix u x p p'
  assume "get_meta_path (Location_fullpath env (h ! r)) (loc_fs (h ! r))
              = Inl (FileNotFoundError u)"
    and "find_object env (loc_path (h ! r)) (loc_fs (h ! r)) (loc_repo (h ! r)) = Inr (x, p)"
    and "(case loc_repo (h ! r) of None \<Rightarrow> Inr p | Some repo \<Rightarrow> posixpath_relpath env p repo)
           = Inr p'"
  then show "find_meta_location env h r = Inr (h @ [(h ! r)\<lparr>loc_path := p'\<rparr>], length h)"
    by (simp add: find_meta_location_def find_meta_path_def Location_copy_def update_path_def)
next
  fix e
  assume "get_meta_path (Location_fullpath env (h ! r)) (loc_fs (h ! r)) = Inl e"
    and "\<forall>u. e \<noteq> FileNotFoundError u"
  then have "find_meta_path env (h ! r) = Inl e"
    by (cases e) (simp_all add: find_meta_path_def)
  then show "find_meta_location env h r = Inl e"
    by (simp add: find_meta_location_def Location_copy_def)
next
  fix u m
  assume "get_meta_path (Location_fullpath env (h ! r)) (loc_fs (h ! r))
              = Inl (FileNotFoundError u)"
    and "find_object env (loc_path (h ! r)) (loc_fs (h ! r)) (loc_repo (h ! r))
              = Inl (ValueError m)"
  then have "find_meta_path env (h ! r)
      = Inl (MlemObjectNotFound (''MLEM object was not found at '' @ Location_uri env (h ! r)))"
    by (simp add: find_meta_path_def)
  then show "find_meta_location env h r
              = Inl (MlemObjectNotFound
                       (''MLEM object was not found at '' @ Location_uri env (h ! r)))"
    by (simp add: find_meta_location_def Location_copy_def)
next
  fix u e
  assume "get_meta_path (Location_fullpath env (h ! r)) (loc_fs (h ! r))
              = Inl (FileNotFoundError u)"
    and "find_object env (loc_path (h ! r)) (loc_fs (h ! r)) (loc_repo (h ! r)) = Inl e"
    and "\<forall>m. e \<noteq> ValueError m"
  then have "find_meta_path env (h ! r) = Inl e"
    by (cases e) (simp_all add: find_meta_path_def)
  then show "find_meta_location env h r = Inl e"
    by (simp add: find_meta_location_def Location_copy_def)
qed

text \<open>
  The example location names \<open>model\<close> in the repository \<open>project\<close>: the metadata file
  is found inside the directory. The alias location names nothing on the file system
  and is found by the registry. In both cases the new location holds the path relative
  to the repository. A location that the registry does not know either ends with
  \<open>MlemObjectNotFound\<close>.
\<close>

theorem find_meta_location_new_descriptor_witness:
  "0 < length [example_location] \<and>
   get_meta_path (Location_fullpath example_metadata_env example_location) example_project
     = Inr ''project/model/mlem.yaml'' \<and>
   posixpath_relpath example_metadata_env ''project/model/mlem.yaml'' ''project''
     = Inr ''model/mlem.yaml'' \<and>
   find_meta_location example_metadata_env [example_location] 0
     = Inr ([example_location, example_location\<lparr>loc_path := ''model/mlem.yaml''\<rparr>], 1) \<and>
   [example_location, example_location\<lparr>loc_path := ''model/mlem.yaml''\<rparr>] ! 0 = example_location \<and>
   get_meta_path (Location_fullpath example_registry_env alias_location) example_project
     = Inl (FileNotFoundError ''project/alias'') \<and>
   find_object example_registry_env ''alias'' example_project (Some ''project'')
     = Inr (''model'', ''project/.mlem/model/alias.mlem.yaml'') \<and>
   find_meta_location example_registry_env [alias_location] 0
     = Inr ([alias_location, alias_location\<lparr>loc_path := ''.mlem/model/alias.mlem.yaml''\<rparr>], 1) \<and>
   get_meta_path ''project/missing'' example_project = Inl (FileNotFoundError ''project/missing'') \<and>
   find_meta_location example_metadata_env [example_location\<lparr>loc_path := ''missing''\<rparr>] 0
     = Inl (MlemObjectNotFound ''MLEM object was not found at missing'')"
proof -
  have a: "0 < length [example_location]" by simp
  have b: "get_meta_path (Location_fullpath example_metadata_env ([example_location] ! 0))
             (loc_fs ([example_location] ! 0)) = Inr ''project/model/mlem.yaml''"
    by (simp add: metadata_defs get_meta_path_def example_defs)
  have c: "(case loc_repo ([example_location] ! 0) of
              None \<Rightarrow> Inr ''project/model/mlem.yaml''
            | Some repo \<Rightarrow> posixpath_relpath example_metadata_env ''project/model/mlem.yaml'' repo)
           = Inr ''model/mlem.yaml''"
    by (simp add: metadata_defs)
  from find_meta_location_new_descriptor [OF a, of example_metadata_env] b c
  have d: "find_meta_location example_metadata_env [example_location] 0
     = Inr ([example_location] @ [([example_location] ! 0)\<lparr>loc_path := ''model/mlem.yaml''\<rparr>],
            length [example_location])"
    by blast
  have a2: "0 < length [alias_location]" by simp
  have b2: "get_meta_path (Location_fullpath example_registry_env ([alias_location] ! 0))
             (loc_fs ([alias_location] ! 0)) = Inl (FileNotFoundError ''project/alias'')"
    by (simp add: metadata_defs registry_defs get_meta_path_def example_defs)
  have f2: "find_object example_registry_env (loc_path ([alias_location] ! 0))
              (loc_fs ([alias_location] ! 0)) (loc_repo ([alias_location] ! 0))
            = Inr (''model'', ''project/.mlem/model/alias.mlem.yaml'')"
    by (simp add: metadata_defs registry_defs)
  have c2: "(case loc_repo ([alias_location] ! 0) of
              None \<Rightarrow> Inr ''project/.mlem/model/alias.mlem.yaml''
            | Some repo \<Rightarrow>
                posixpath_relpath example_registry_env ''project/.mlem/model/alias.mlem.yaml'' repo)
           = Inr ''.mlem/model/alias.mlem.yaml''"
    by (simp add: metadata_defs registry_defs)
  from find_meta_location_new_descriptor [OF a2, of example_registry_env] b2 f2 c2
  have d2: "find_meta_location example_registry_env [alias_location] 0
     = Inr ([alias_location] @ [([alias_location] ! 0)\<lparr>loc_path := ''.mlem/model/alias.mlem.yaml''\<rparr>],
            length [alias_location])"
    by blast
  have a3: "0 < length [example_location\<lparr>loc_path := ''missing''\<rparr>]" by simp
  have b3: "get_meta_path
             (Location_fullpath example_metadata_env ([example_location\<lparr>loc_path := ''missing''\<rparr>] ! 0))
             (loc_fs ([example_location\<lparr>loc_path := ''missing''\<rparr>] ! 0))
           = Inl (FileNotFoundError ''project/missing'')"
    by (simp add: metadata_defs get_meta_path_def example_defs)
  have f3: "find_object example_metadata_env
             (loc_path ([example_location\<lparr>loc_path := ''missing''\<rparr>] ! 0))
             (loc_fs ([example_location\<lparr>loc_path := ''missing''\<rparr>] ! 0))
             (loc_repo ([example_location\<lparr>loc_path := ''missing''\<rparr>] ! 0))
           = Inl (ValueError ''no such object'')"
    by (simp add: example_metadata_env_def)
  have g3: "Location_uri example_metadata_env ([example_location\<lparr>loc_path := ''missing''\<rparr>] ! 0)
           = ''missing''"
    by (simp add: example_metadata_env_def)
  from find_meta_location_new_descriptor [OF a3, of example_metadata_env] b3 f3
  have "find_meta_location example_metadata_env [example_location\<lparr>loc_path := ''missing''\<rparr>] 0
     = Inl (MlemObjectNotFound (''MLEM object was not found at '' @
          Location_uri example_metadata_env ([example_location\<lparr>loc_path := ''missing''\<rparr>] ! 0)))"
    by blast
  then have d3: "find_meta_location example_metadata_env [example_location\<lparr>loc_path := ''missing''\<rparr>] 0
     = Inl (MlemObjectNotFound ''MLEM object was not found at missing'')"
    by (simp only: g3) simp
  have e1: "get_meta_path (Location_fullpath example_metadata_env example_location) example_project
     = Inr ''project/model/mlem.yaml''"
    using b by (simp add: example_location_def)
  have e2: "posixpath_relpath example_metadata_env ''project/model/mlem.yaml'' ''project''
     = Inr ''model/mlem.yaml''"
    by (simp add: example_metadata_env_def example_relpath_def)
  have e3: "get_meta_path (Location_fullpath example_registry_env alias_location) example_project
     = Inl (FileNotFoundError ''project/alias'')"
    using b2 by (simp add: alias_location_def)
  have e4: "find_object example_registry_env ''alias'' example_project (Some ''project'')
     = Inr (''model'', ''project/.mlem/model/alias.mlem.yaml'')"
    by (simp add: registry_defs)
  have e5: "get_meta_path ''project/missing'' example_project
           = Inl (FileNotFoundError ''project/missing'')"
    by (simp add: get_meta_path_def example_defs)
  from a d d2 d3 e1 e2 e3 e4 e5 show ?thesis by simp
qed


section \<open>A protocol given as a list\<close>

text \<open>
  Claim C10. For a backend that is not the hosted-repo backend and whose protocol is a
  list or tuple, \<open>get_path_by_fs_path\<close> returns the path unchanged as soon as the path
  starts with one of the protocol names, whether or not \<open>://\<close> follows the name;
  otherwise it puts the first protocol name and \<open>://\<close> in front of the path (an empty
  list has no first name: the indexing raises). So the restored URI need not carry a
  protocol: for the path \<open>s3-bucket/key\<close> on a backend with the protocols \<open>s3\<close> and
  \<open>s3a\<close> it is the bare path.
\<close>

theorem get_path_by_fs_path_protocol_list:
  assumes "fs_class fs = OtherFileSystem" and "protocol fs = Seq ps"
  shows "((\<exists>p \<in> set ps. prefix p path) \<longrightarrow> get_path_by_fs_path fs path = Inr path) \<and>
         (\<not> (\<exists>p \<in> set ps. prefix p path) \<longrightarrow>
            get_path_by_fs_path fs path =
              (case ps of [] \<Rightarrow> Inl IndexError | p # _ \<Rightarrow> Inr (p @ ''://'' @ path))) \<and>
         get_path_by_fs_path s3_backend ''s3-bucket/key'' = Inr ''s3-bucket/key'' \<and>
         \<not> sublist ''://'' ''s3-bucket/key''"
proof -
  have "(\<exists>p \<in> set ps. prefix p path) \<longrightarrow> get_path_by_fs_path fs path = Inr path"
    using assms by (simp add: get_path_by_fs_path_def list_ex_iff)
  moreover have "\<not> (\<exists>p \<in> set ps. prefix p path) \<longrightarrow>
            get_path_by_fs_path fs path =
              (case ps of [] \<Rightarrow> Inl IndexError | p # _ \<Rightarrow> Inr (p @ ''://'' @ path))"
  proof (cases ps)
    case Nil
    with assms show ?thesis by (simp add: get_path_by_fs_path_def)
  next
    case (Cons p qs)
    have "\<not> prefix p path \<Longrightarrow> \<not> prefix (p @ ''://'') path"
      using append_prefixD by blast
    with assms Cons show ?thesis
      by (auto simp: get_path_by_fs_path_def list_ex_iff with_protocol_def)
  qed
  moreover have "get_path_by_fs_path s3_backend ''s3-bucket/key'' = Inr ''s3-bucket/key''"
    by (simp add: get_path_by_fs_path_def s3_backend_def finite_fs_def)
  moreover have "\<not> sublist ''://'' ''s3-bucket/key''"
    by (simp add: sublist_code(3))
  ultimately show ?thesis by blast
qed

theorem get_path_by_fs_path_protocol_list_witness:
  "fs_class s3_backend = OtherFileSystem \<and> protocol s3_backend = Seq [''s3'', ''s3a''] \<and>
   prefix ''s3'' ''s3-bucket/key'' \<and>
   get_path_by_fs_path s3_backend ''s3-bucket/key'' = Inr ''s3-bucket/key'' \<and>
   \<not> prefix ''s3'' ''bucket/key'' \<and> \<not> prefix ''s3a'' ''bucket/key'' \<and>
   get_path_by_fs_path s3_backend ''bucket/key'' = Inr ''s3://bucket/key''"
proof -
  have a: "fs_class s3_backend = OtherFileSystem"
    and b: "protocol s3_backend = Seq [''s3'', ''s3a'']"
    by (simp_all add: s3_backend_def finite_fs_def)
  from get_path_by_fs_path_protocol_list [OF a b, of "''s3-bucket/key''"]
    get_path_by_fs_path_protocol_list [OF a b, of "''bucket/key''"] a b
  show ?thesis by simp
qed

end
